theory Spec2Isabelle
  imports Main
begin

section \<open>Python values, exceptions and string helpers\<close>

text \<open>
  The settings dictionary of \<^verbatim>\<open>pyiron/base/settings/generic.py\<close> is loosely typed: the
  caller's \<^verbatim>\<open>config\<close> dictionary may bind any key to any Python value. The values
  that the code distinguishes are \<^verbatim>\<open>None\<close>, strings, lists and "anything else"
  (represented by integers).
\<close>

datatype pyval = PNone | PInt int | PStr string | PList "pyval list"

datatype error =
    TypeError | ValueError | IndexError | KeyError | AttributeError
  | EOFError | NoOptionError | OSError

type_synonym config_dict = "string \<rightharpoonup> pyval"

type_synonym options = "string \<rightharpoonup> string"

definition ebind :: "error + 'a \<Rightarrow> ('a \<Rightarrow> error + 'b) \<Rightarrow> error + 'b" where
  "ebind m f = (case m of Inl e \<Rightarrow> Inl e | Inr x \<Rightarrow> f x)"

fun map_err :: "('a \<Rightarrow> error + 'b) \<Rightarrow> 'a list \<Rightarrow> error + 'b list" where
  "map_err f [] = Inr []"
| "map_err f (x # xs) =
     (case f x of
        Inl e \<Rightarrow> Inl e
      | Inr y \<Rightarrow> (case map_err f xs of Inl e \<Rightarrow> Inl e | Inr ys \<Rightarrow> Inr (y # ys)))"

text \<open>\<^verbatim>\<open>d[key]\<close> on a dictionary: a missing key raises KeyError.\<close>

definition getitem :: "config_dict \<Rightarrow> string \<Rightarrow> error + pyval" where
  "getitem c k = (case c k of None \<Rightarrow> Inl KeyError | Some v \<Rightarrow> Inr v)"

text \<open>\<^verbatim>\<open>s + v\<close> with \<^verbatim>\<open>s\<close> a string: any other operand type raises TypeError.\<close>

definition str_add :: "string \<Rightarrow> pyval \<Rightarrow> error + string" where
  "str_add s v = (case v of PStr t \<Rightarrow> Inr (s @ t) | _ \<Rightarrow> Inl TypeError)"

text \<open>\<^verbatim>\<open>s.replace('\\', '/')\<close>.\<close>

definition replace_backslash :: "string \<Rightarrow> string" where
  "replace_backslash s = map (\<lambda>c. if c = CHR 0x5C then CHR ''/'' else c) s"

text \<open>\<^verbatim>\<open>s.split(",")\<close>: the pieces between commas; never the empty list.\<close>

fun split_comma :: "string \<Rightarrow> string list" where
  "split_comma [] = [[]]"
| "split_comma (c # cs) =
     (if c = CHR '','' then [] # split_comma cs
      else (case split_comma cs of
              [] \<Rightarrow> [[c]]
            | w # ws \<Rightarrow> (c # w) # ws))"

text \<open>
  \<^verbatim>\<open>s.strip()\<close>: removes leading and trailing whitespace. A character stands for the
  code point of its number, and the whitespace characters are those of \<^verbatim>\<open>str.isspace\<close>
  among the code points below 256: the ASCII ones, U+0085 and U+00A0.
\<close>

definition is_space :: "char \<Rightarrow> bool" where
  "is_space c = (c \<in> {CHR 0x09, CHR 0x0A, CHR 0x0B, CHR 0x0C, CHR 0x0D,
                       CHR 0x1C, CHR 0x1D, CHR 0x1E, CHR 0x1F, CHR 0x20,
                       CHR 0x85, CHR 0xA0})"

definition strip :: "string \<Rightarrow> string" where
  "strip s = rev (dropWhile is_space (rev (dropWhile is_space s)))"

text \<open>\<^verbatim>\<open>p in s\<close> on strings: \<^verbatim>\<open>p\<close> occurs in \<^verbatim>\<open>s\<close> as a contiguous substring.\<close>

fun starts_with :: "string \<Rightarrow> string \<Rightarrow> bool" where
  "starts_with s [] = True"
| "starts_with [] (c # p) = False"
| "starts_with (d # s) (c # p) = (d = c \<and> starts_with s p)"

fun str_in :: "string \<Rightarrow> string \<Rightarrow> bool" where
  "str_in p [] = (p = [])"
| "str_in p (c # s) = (starts_with (c # s) p \<or> str_in p s)"

section \<open>The environment of the process\<close>

text \<open>
  Everything the module reads from outside itself is a field of the environment:
  \<^item> \<open>environ\<close>: \<^verbatim>\<open>os.environ\<close>;
  \<^item> \<open>home\<close>: what \<^verbatim>\<open>os.path.expanduser("~")\<close> returns;
  \<^item> \<open>isfile\<close>, \<open>path_exists\<close>: \<^verbatim>\<open>os.path.isfile\<close>, \<^verbatim>\<open>os.path.exists\<close>;
  \<^item> \<open>read_config\<close>: the options that \<^verbatim>\<open>ConfigParser\<close> finds in the section the code
    selects (the first declared one, else \<^verbatim>\<open>DEFAULT\<close>), by the option names the code asks
    for, each with the value that \<^verbatim>\<open>parser.get\<close> returns;
  \<^item> \<open>user_inputs\<close>: the lines the user types at the \<^verbatim>\<open>input\<close> prompt, in order;
  \<^item> \<open>install_pyiron\<close>: the external installer; it either raises or leaves a configuration
    file, whose options it returns;
  \<^item> \<open>makedirs\<close>: \<^verbatim>\<open>os.makedirs\<close>, which may raise;
  \<^item> \<open>normalize_path\<close>: \<^verbatim>\<open>Path(p).expanduser().resolve().absolute().as_posix()\<close> of the external
    path library (on Python 2 under Windows: the \<^verbatim>\<open>os.path\<close> equivalent);
  \<^item> \<open>abs_curdir\<close>: \<^verbatim>\<open>os.path.abspath(os.path.curdir)\<close>.

  Two failures of the libraries have no counterpart here, so the model is about the runs in
  which they do not occur: \<^verbatim>\<open>parser.get\<close> raising on an option that is present but whose
  value it cannot interpolate (a lone \<^verbatim>\<open>%\<close>), and the path library raising on a string
  (the home directory of an unknown user, a loop of symbolic links).
\<close>

record environment =
  environ :: "string \<rightharpoonup> string"
  home :: string
  isfile :: "string \<Rightarrow> bool"
  path_exists :: "string \<Rightarrow> bool"
  read_config :: "string \<Rightarrow> options"
  user_inputs :: "string list"
  install_pyiron :: "string \<Rightarrow> error + options"
  makedirs :: "string \<Rightarrow> error option"
  normalize_path :: "string \<Rightarrow> string"
  abs_curdir :: string

text \<open>
  \<^verbatim>\<open>convert_path(path)\<close>: both branches hand the path to the path library, which
  rejects anything that is not a string.
\<close>

definition convert_path :: "environment \<Rightarrow> pyval \<Rightarrow> error + string" where
  "convert_path env path =
     (case path of PStr s \<Rightarrow> Inr (normalize_path env s) | _ \<Rightarrow> Inl TypeError)"

section \<open>Posix path functions used by the module\<close>

text \<open>\<^verbatim>\<open>os.path.isabs\<close>, \<^verbatim>\<open>os.path.join\<close> (two arguments) and \<^verbatim>\<open>os.path.dirname\<close>.\<close>

definition isabs :: "string \<Rightarrow> bool" where
  "isabs p = starts_with p ''/''"

definition path_join :: "string \<Rightarrow> string \<Rightarrow> string" where
  "path_join a b =
     (if starts_with b ''/'' then b
      else if a = [] \<or> last a = CHR ''/'' then a @ b
      else a @ ''/'' @ b)"

definition rstrip_slash :: "string \<Rightarrow> string" where
  "rstrip_slash s = rev (dropWhile (\<lambda>c. c = CHR ''/'') (rev s))"

definition dirname :: "string \<Rightarrow> string" where
  "dirname p =
     (let head = rev (dropWhile (\<lambda>c. c \<noteq> CHR ''/'') (rev p))
      in if head \<noteq> [] \<and> (\<exists>c \<in> set head. c \<noteq> CHR ''/'') then rstrip_slash head else head)"

section \<open>Settings: the configuration dictionary\<close>

text \<open>The default dictionary of \<^verbatim>\<open>Settings.__init__\<close>.\<close>

definition default_configuration :: config_dict where
  "default_configuration =
     [''user'' \<mapsto> PStr ''pyiron'',
      ''resource_paths'' \<mapsto> PList [PStr ''~/pyiron/resources''],
      ''project_paths'' \<mapsto> PList [PStr ''~/pyiron/projects''],
      ''sql_connection_string'' \<mapsto> PNone,
      ''sql_table_name'' \<mapsto> PStr ''jobs_pyiron'',
      ''sql_view_connection_string'' \<mapsto> PNone,
      ''sql_view_table_name'' \<mapsto> PNone,
      ''sql_view_user'' \<mapsto> PNone,
      ''sql_view_user_key'' \<mapsto> PNone,
      ''sql_file'' \<mapsto> PNone,
      ''sql_host'' \<mapsto> PNone,
      ''sql_type'' \<mapsto> PStr ''SQLite'',
      ''sql_user_key'' \<mapsto> PNone,
      ''sql_database'' \<mapsto> PNone]"

text \<open>
  \<^verbatim>\<open>[convert_path(c.strip()) for c in parser.get(section, NAME).split(",")]\<close>
\<close>

definition file_path_list :: "environment \<Rightarrow> string \<Rightarrow> pyval" where
  "file_path_list env v = PList (map (\<lambda>c. PStr (normalize_path env (strip c))) (split_comma v))"

text \<open>
  \<^verbatim>\<open>Settings._config_parse_file\<close>, on the options of the selected section, block by block
  in the order of the source: \<open>parse_type_and_paths\<close> (\<^verbatim>\<open>TYPE\<close>, the project paths with
  their legacy alias, the resource paths), \<open>parse_backend\<close> (the branch on the SQL type, with
  \<open>parse_credentials\<close> for Postgres and MySQL and \<open>parse_sqlite_file\<close> for everything that
  is not SQLalchemy either), then \<^verbatim>\<open>JOB_TABLE\<close>. The
  \<^verbatim>\<open>ValueError('No project path identified!')\<close> of the source is built and dropped, so
  that branch changes nothing. \<^verbatim>\<open>parser.get\<close> of a missing option raises.
\<close>

definition parse_credentials :: "options \<Rightarrow> config_dict \<Rightarrow> error + config_dict" where
  "parse_credentials opts c =
     (case (opts ''USER'', opts ''PASSWD'', opts ''HOST'', opts ''NAME'') of
        (Some u, Some p, Some h, Some n) \<Rightarrow>
          (let c1 = c(''user'' \<mapsto> PStr u, ''sql_user_key'' \<mapsto> PStr p, ''sql_host'' \<mapsto> PStr h,
                      ''sql_database'' \<mapsto> PStr n, ''sql_file'' \<mapsto> PNone)
           in Inr (case (opts ''VIEWERUSER'', opts ''VIEWERPASSWD'', opts ''VIEWER_TABLE'') of
                     (Some vu, Some vp, Some vt) \<Rightarrow>
                       c1(''sql_view_table_name'' \<mapsto> PStr vt, ''sql_view_user'' \<mapsto> PStr vu,
                          ''sql_view_user_key'' \<mapsto> PStr vp)
                   | _ \<Rightarrow> c1))
      | _ \<Rightarrow> Inl ValueError)"

definition parse_sqlite_file :: "options \<Rightarrow> config_dict \<Rightarrow> config_dict" where
  "parse_sqlite_file opts c =
     (let c1 = (case opts ''FILE'' of
                  Some f \<Rightarrow> c(''sql_file'' \<mapsto> PStr (replace_backslash f)) | None \<Rightarrow> c)
      in (case opts ''DATABASE_FILE'' of
            Some f \<Rightarrow> c1(''sql_file'' \<mapsto> PStr (replace_backslash f)) | None \<Rightarrow> c1))"

definition parse_type_and_paths :: "environment \<Rightarrow> options \<Rightarrow> config_dict \<Rightarrow> config_dict" where
  "parse_type_and_paths env opts c =
     (let c1 = (case opts ''TYPE'' of Some t \<Rightarrow> c(''sql_type'' \<mapsto> PStr t) | None \<Rightarrow> c);
          c2 = (case opts ''PROJECT_PATHS'' of
                  Some v \<Rightarrow> c1(''project_paths'' \<mapsto> file_path_list env v)
                | None \<Rightarrow>
                    (case opts ''TOP_LEVEL_DIRS'' of
                       Some v \<Rightarrow> c1(''project_paths'' \<mapsto> file_path_list env v)
                     | None \<Rightarrow> c1))
      in (case opts ''RESOURCE_PATHS'' of
            Some v \<Rightarrow> c2(''resource_paths'' \<mapsto> file_path_list env v)
          | None \<Rightarrow> c2))"

definition parse_backend :: "options \<Rightarrow> config_dict \<Rightarrow> error + config_dict" where
  "parse_backend opts c =
     ebind (getitem c ''sql_type'') (\<lambda>ty.
       if ty = PStr ''Postgres'' \<or> ty = PStr ''MySQL'' then parse_credentials opts c
       else if ty = PStr ''SQLalchemy'' then
         (case opts ''CONNECTION'' of
            None \<Rightarrow> Inl NoOptionError
          | Some v \<Rightarrow> Inr (c(''sql_connection_string'' \<mapsto> PStr v)))
       else Inr (parse_sqlite_file opts c))"

definition config_parse_file :: "environment \<Rightarrow> options \<Rightarrow> config_dict \<Rightarrow> error + config_dict" where
  "config_parse_file env opts c =
     ebind (parse_backend opts (parse_type_and_paths env opts c)) (\<lambda>c4.
     Inr (case opts ''JOB_TABLE'' of
            Some t \<Rightarrow> c4(''sql_table_name'' \<mapsto> PStr t) | None \<Rightarrow> c4))"

text \<open>
  The file-discovery part of \<^verbatim>\<open>Settings.__init__\<close>. The source indexes
  \<^verbatim>\<open>os.environ.keys()\<close> (a list on Python 2, a keys view on Python 3) by the string
  \<^verbatim>\<open>'PYIRONCONFIG'\<close>, which raises TypeError on both. The default file is
  \<^verbatim>\<open>os.path.expanduser("~/.pyiron")\<close>. At the prompt, the loop only ends on \<^verbatim>\<open>'yes'\<close>
  or \<^verbatim>\<open>'no'\<close> (so \<^verbatim>\<open>lower()\<close> changes nothing and \<^verbatim>\<open>'y'\<close> cannot occur); a closed
  input stream raises EOFError.
\<close>

definition default_config_file :: "environment \<Rightarrow> string" where
  "default_config_file env = rstrip_slash (home env) @ ''/.pyiron''"

definition ci_variables :: "string list" where
  "ci_variables = [''TRAVIS'', ''APPVEYOR'', ''CIRCLECI'', ''CONDA_BUILD'', ''GITLAB_CI'']"

fun ask_user :: "string list \<Rightarrow> error + string" where
  "ask_user [] = Inl EOFError"
| "ask_user (a # rest) = (if a = ''yes'' \<or> a = ''no'' then Inr a else ask_user rest)"

definition load_file :: "environment \<Rightarrow> config_dict \<Rightarrow> error + config_dict" where
  "load_file env c =
     (if environ env ''PYIRONCONFIG'' \<noteq> None then Inl TypeError
      else
        (let config_file = default_config_file env
         in if isfile env config_file then
              config_parse_file env (read_config env config_file) c
            else if \<not> (\<exists>v \<in> set ci_variables. environ env v \<noteq> None) then
              ebind (ask_user (user_inputs env)) (\<lambda>user_input.
                if user_input = ''yes'' then
                  ebind (install_pyiron env config_file) (\<lambda>opts. config_parse_file env opts c)
                else Inl ValueError)
            else Inr c))"

text \<open>
  The loop over \<^verbatim>\<open>config.items()\<close>. In the last branch the source builds a
  \<^verbatim>\<open>TypeError\<close> object without raising it, so the entry is skipped.
\<close>

definition is_list :: "pyval \<Rightarrow> bool" where
  "is_list v = (case v of PList _ \<Rightarrow> True | _ \<Rightarrow> False)"

definition is_str :: "pyval \<Rightarrow> bool" where
  "is_str v = (case v of PStr _ \<Rightarrow> True | _ \<Rightarrow> False)"

fun merge_overrides :: "(string \<times> pyval) list \<Rightarrow> config_dict \<Rightarrow> config_dict" where
  "merge_overrides [] c = c"
| "merge_overrides ((key, val) # rest) c =
     merge_overrides rest
       (if key \<notin> {''resource_paths'', ''project_paths''} \<or> is_list val then c(key \<mapsto> val)
        else if is_str val then c(key \<mapsto> PList [val])
        else c)"

text \<open>
  The two list comprehensions that normalise the path lists. \<^verbatim>\<open>for path in v\<close> needs an
  iterable; \<^verbatim>\<open>path[-1]\<close> needs a non-empty sequence.
\<close>

definition iterate :: "pyval \<Rightarrow> error + pyval list" where
  "iterate v =
     (case v of
        PList l \<Rightarrow> Inr l
      | PStr s \<Rightarrow> Inr (map (\<lambda>c. PStr [c]) s)
      | _ \<Rightarrow> Inl TypeError)"

definition project_path_entry :: "environment \<Rightarrow> pyval \<Rightarrow> error + pyval" where
  "project_path_entry env path =
     (case path of
        PStr s \<Rightarrow>
          (if s = [] then Inl IndexError
           else if last s \<noteq> CHR ''/'' then Inr (PStr (normalize_path env s @ ''/''))
           else Inr (PStr (normalize_path env s)))
      | PList l \<Rightarrow> (if l = [] then Inl IndexError else Inl TypeError)
      | _ \<Rightarrow> Inl TypeError)"

definition resource_path_entry :: "environment \<Rightarrow> pyval \<Rightarrow> error + pyval" where
  "resource_path_entry env path = ebind (convert_path env path) (\<lambda>s. Inr (PStr s))"

definition normalize_paths :: "environment \<Rightarrow> config_dict \<Rightarrow> error + config_dict" where
  "normalize_paths env c =
     ebind (getitem c ''project_paths'') (\<lambda>pp.
     ebind (iterate pp) (\<lambda>paths.
     ebind (map_err (project_path_entry env) paths) (\<lambda>ps.
     let c1 = c(''project_paths'' \<mapsto> PList ps) in
     ebind (getitem c1 ''resource_paths'') (\<lambda>rp.
     ebind (iterate rp) (\<lambda>paths.
     ebind (map_err (resource_path_entry env) paths) (\<lambda>rs.
     Inr (c1(''resource_paths'' \<mapsto> PList rs))))))))"

text \<open>
  The connection strings. \<open>credentials_url\<close> is the sum
  \<^verbatim>\<open>scheme + c[user] + ':' + c[key] + '@' + c['sql_host'] + '/' + c['sql_database']\<close>,
  evaluated left to right.
\<close>

definition credentials_url :: "string \<Rightarrow> config_dict \<Rightarrow> string \<Rightarrow> string \<Rightarrow> error + string" where
  "credentials_url scheme c user_key pass_key =
     ebind (getitem c user_key) (\<lambda>u.
     ebind (str_add scheme u) (\<lambda>s1.
     ebind (getitem c pass_key) (\<lambda>p.
     ebind (str_add (s1 @ '':'') p) (\<lambda>s2.
     ebind (getitem c ''sql_host'') (\<lambda>h.
     ebind (str_add (s2 @ ''@'') h) (\<lambda>s3.
     ebind (getitem c ''sql_database'') (\<lambda>d.
     str_add (s3 @ ''/'') d)))))))"

text \<open>\<^verbatim>\<open>v[0]\<close> and \<^verbatim>\<open>'/'.join([r, 'sqlite.db'])\<close>.\<close>

definition first_item :: "pyval \<Rightarrow> error + pyval" where
  "first_item v =
     (case v of
        PList l \<Rightarrow> (case l of [] \<Rightarrow> Inl IndexError | x # _ \<Rightarrow> Inr x)
      | PStr s \<Rightarrow> (case s of [] \<Rightarrow> Inl IndexError | x # _ \<Rightarrow> Inr (PStr [x]))
      | _ \<Rightarrow> Inl TypeError)"

definition join_sqlite_db :: "pyval \<Rightarrow> error + string" where
  "join_sqlite_db r = (case r of PStr s \<Rightarrow> Inr (s @ ''/'' @ ''sqlite.db'') | _ \<Rightarrow> Inl TypeError)"

definition as_str :: "pyval \<Rightarrow> error + string" where
  "as_str v = (case v of PStr s \<Rightarrow> Inr s | _ \<Rightarrow> Inl TypeError)"

definition build_sqlite :: "environment \<Rightarrow> config_dict \<Rightarrow> error + config_dict \<times> string list" where
  "build_sqlite env c =
     ebind (getitem c ''sql_file'') (\<lambda>f0.
     ebind (if f0 = PNone then
              ebind (getitem c ''resource_paths'') (\<lambda>rp.
              ebind (first_item rp) (\<lambda>r.
              ebind (join_sqlite_db r) (\<lambda>f. Inr (c(''sql_file'' \<mapsto> PStr f)))))
            else Inr c) (\<lambda>c1.
     ebind (getitem c1 ''sql_file'') (\<lambda>f1.
     ebind (as_str f1) (\<lambda>f.
     ebind (if dirname f \<noteq> [] \<and> \<not> path_exists env (dirname f) then
              (case makedirs env (dirname f) of Some e \<Rightarrow> Inl e | None \<Rightarrow> Inr [dirname f])
            else Inr []) (\<lambda>dirs.
     Inr (c1(''sql_connection_string'' \<mapsto> PStr (''sqlite:///'' @ replace_backslash f)), dirs))))))"

definition build_connection_strings ::
  "environment \<Rightarrow> config_dict \<Rightarrow> error + config_dict \<times> string list" where
  "build_connection_strings env c =
     ebind (getitem c ''sql_type'') (\<lambda>ty.
       if ty = PStr ''Postgres'' then
         ebind (credentials_url ''postgresql://'' c ''user'' ''sql_user_key'') (\<lambda>s.
         let c1 = c(''sql_connection_string'' \<mapsto> PStr s) in
         ebind (getitem c1 ''sql_view_user'') (\<lambda>vu.
           if vu \<noteq> PNone then
             ebind (credentials_url ''postgresql://'' c1 ''sql_view_user'' ''sql_view_user_key'') (\<lambda>vs.
             Inr (c1(''sql_view_connection_string'' \<mapsto> PStr vs), []))
           else Inr (c1, [])))
       else if ty = PStr ''MySQL'' then
         ebind (credentials_url ''mysql+pymysql://'' c ''user'' ''sql_user_key'') (\<lambda>s.
         Inr (c(''sql_connection_string'' \<mapsto> PStr s), []))
       else build_sqlite env c)"

section \<open>Settings: the object and its connection handle\<close>

text \<open>
  Modelled from the spec: \<^verbatim>\<open>DatabaseAccess\<close> (module \<^verbatim>\<open>pyiron.base.database.generic\<close>,
  not part of this file) is the database client, which "accepts (connectionString,
  tableName), exposes an open/close contract and a viewerMode flag the ConnectionManager
  toggles". A handle records the two constructor arguments and the flag; a fresh handle is
  not in viewer mode. Connecting itself is the client's business and is taken to succeed.
\<close>

record database_access =
  connection_string :: pyval
  table_name :: pyval
  viewer_mode :: bool

text \<open>
  Modelled from the spec: the constructor \<^verbatim>\<open>DatabaseAccess(connection_string, table_name)\<close>
  of the same absent module, returning a fresh handle.
\<close>

definition DatabaseAccess :: "pyval \<Rightarrow> pyval \<Rightarrow> database_access" where
  "DatabaseAccess cs tn = \<lparr>connection_string = cs, table_name = tn, viewer_mode = False\<rparr>"

text \<open>
  The attributes of a \<^verbatim>\<open>Settings\<close> object: \<open>configuration\<close>, \<open>database\<close> and
  \<open>use_local_database\<close> (the logger, and the \<^verbatim>\<open>Singleton\<close> metaclass that decides when
  \<^verbatim>\<open>__init__\<close> runs, are left out: no statement below depends on them). Its effects on the outside are recorded in three logs:
  \<open>closed\<close>, the handles whose \<^verbatim>\<open>conn.close()\<close> was called, oldest first; \<open>printed\<close>,
  the lines written by \<^verbatim>\<open>print\<close>; \<open>made_dirs\<close>, the directories created by
  \<^verbatim>\<open>os.makedirs\<close>.
\<close>

record settings =
  configuration :: config_dict
  database :: "database_access option"
  use_local_database :: bool
  closed :: "database_access list"
  printed :: "string list"
  made_dirs :: "string list"

definition Settings_init :: "environment \<Rightarrow> (string \<times> pyval) list option \<Rightarrow> error + settings" where
  "Settings_init env config =
     ebind (load_file env default_configuration) (\<lambda>c1.
     let c2 = (case config of None \<Rightarrow> c1 | Some items \<Rightarrow> merge_overrides items c1) in
     ebind (normalize_paths env c2) (\<lambda>c3.
     ebind (build_connection_strings env c3) (\<lambda>(c4, dirs).
     Inr \<lparr>configuration = c4, database = None, use_local_database = False,
          closed = [], printed = [], made_dirs = dirs\<rparr>)))"

definition close_connection :: "settings \<Rightarrow> settings" where
  "close_connection s =
     (case database s of
        Some h \<Rightarrow> s\<lparr>database := None, closed := closed s @ [h]\<rparr>
      | None \<Rightarrow> s)"

definition open_connection :: "settings \<Rightarrow> error + settings" where
  "open_connection s =
     (if database s = None then
        ebind (getitem (configuration s) ''sql_connection_string'') (\<lambda>cs.
        ebind (getitem (configuration s) ''sql_table_name'') (\<lambda>tn.
        Inr (s\<lparr>database := Some (DatabaseAccess cs tn)\<rparr>)))
      else Inr s)"

definition switch_to_local_database ::
  "environment \<Rightarrow> string \<Rightarrow> string option \<Rightarrow> settings \<Rightarrow> error + settings" where
  "switch_to_local_database env file_name cwd s =
     (if \<not> use_local_database s then
        (let file_name1 =
               (if cwd = None \<and> \<not> isabs file_name then path_join (abs_curdir env) file_name
                else (case cwd of Some d \<Rightarrow> path_join d file_name | None \<Rightarrow> file_name));
             s1 = close_connection s
         in ebind (getitem (configuration s1) ''sql_table_name'') (\<lambda>tn.
            Inr (s1\<lparr>database := Some (DatabaseAccess (PStr (''sqlite:///'' @ file_name1)) tn),
                    use_local_database := True\<rparr>)))
      else Inr (s\<lparr>printed := printed s @ [''Database is already in local mode!'']\<rparr>))"

definition switch_to_central_database :: "settings \<Rightarrow> error + settings" where
  "switch_to_central_database s =
     (if use_local_database s then
        (let s1 = close_connection s
         in ebind (getitem (configuration s1) ''sql_connection_string'') (\<lambda>cs.
            ebind (getitem (configuration s1) ''sql_table_name'') (\<lambda>tn.
            Inr (s1\<lparr>database := Some (DatabaseAccess cs tn), use_local_database := False\<rparr>))))
      else Inr (s\<lparr>printed := printed s @ [''Database is already in central mode!'']\<rparr>))"

text \<open>
  In the two viewer switches \<^verbatim>\<open>self._database.viewer_mode\<close> is read without a check that
  a handle exists: on \<^verbatim>\<open>None\<close> the attribute access raises AttributeError.
\<close>

definition switch_to_viewer_mode :: "settings \<Rightarrow> error + settings" where
  "switch_to_viewer_mode s =
     ebind (getitem (configuration s) ''sql_view_connection_string'') (\<lambda>vcs.
       if vcs \<noteq> PNone then
         (case database s of
            None \<Rightarrow> Inl AttributeError
          | Some h \<Rightarrow>
              if \<not> viewer_mode h then
                (let s1 = close_connection s
                 in ebind (getitem (configuration s1) ''sql_view_connection_string'') (\<lambda>cs.
                    ebind (getitem (configuration s1) ''sql_view_table_name'') (\<lambda>tn.
                    Inr (s1\<lparr>database := Some ((DatabaseAccess cs tn)\<lparr>viewer_mode := True\<rparr>)\<rparr>))))
              else Inr (s\<lparr>printed := printed s @ [''Database is already in viewer mode!'']\<rparr>))
       else Inr (s\<lparr>printed := printed s @
                     [''Viewer Mode is not available on this pyiron installation.'']\<rparr>))"

definition switch_to_user_mode :: "settings \<Rightarrow> error + settings" where
  "switch_to_user_mode s =
     ebind (getitem (configuration s) ''sql_view_connection_string'') (\<lambda>vcs.
       if vcs \<noteq> PNone then
         (case database s of
            None \<Rightarrow> Inl AttributeError
          | Some h \<Rightarrow>
              if viewer_mode h then
                (let s1 = close_connection s
                 in ebind (getitem (configuration s1) ''sql_connection_string'') (\<lambda>cs.
                    ebind (getitem (configuration s1) ''sql_table_name'') (\<lambda>tn.
                    Inr (s1\<lparr>database := Some ((DatabaseAccess cs tn)\<lparr>viewer_mode := True\<rparr>)\<rparr>))))
              else Inr (s\<lparr>printed := printed s @ [''Database is already in user mode!'']\<rparr>))
       else Inr (s\<lparr>printed := printed s @
                     [''Viewer Mode is not available on this pyiron installation.'']\<rparr>))"

text \<open>
  \<^verbatim>\<open>Settings.top_path\<close>: \<^verbatim>\<open>full_path[-1]\<close> raises on the empty string; the loop
  returns the first project path that occurs anywhere in \<^verbatim>\<open>full_path\<close>
  (\<^verbatim>\<open>path in full_path\<close>), and raises ValueError when none does.
\<close>

fun top_path_loop :: "pyval list \<Rightarrow> string \<Rightarrow> error + string" where
  "top_path_loop [] full_path = Inl ValueError"
| "top_path_loop (path # rest) full_path =
     (case path of
        PStr p \<Rightarrow> (if str_in p full_path then Inr p else top_path_loop rest full_path)
      | _ \<Rightarrow> Inl TypeError)"

definition top_path :: "string \<Rightarrow> settings \<Rightarrow> error + string" where
  "top_path full_path s =
     (if full_path = [] then Inl IndexError
      else
        (let full_path1 = (if last full_path \<noteq> CHR ''/'' then full_path @ ''/'' else full_path)
         in ebind (getitem (configuration s) ''project_paths'') (\<lambda>pp.
            ebind (iterate pp) (\<lambda>paths. top_path_loop paths full_path1))))"

section \<open>Views of the model used in the statements\<close>

text \<open>\<^verbatim>\<open>self._configuration[k]\<close>, as a step that can follow \<open>Settings_init\<close>.\<close>

definition lookup :: "string \<Rightarrow> settings \<Rightarrow> error + pyval" where
  "lookup k s = getitem (configuration s) k"

text \<open>
  Which options \<open>load_file\<close> hands to \<open>config_parse_file\<close>, if any: the same case
  distinction as \<open>load_file\<close>, without the parsing (lemma \<open>load_file_discover\<close>).
\<close>

definition discover_options :: "environment \<Rightarrow> error + options option" where
  "discover_options env =
     (if environ env ''PYIRONCONFIG'' \<noteq> None then Inl TypeError
      else if isfile env (default_config_file env) then
        Inr (Some (read_config env (default_config_file env)))
      else if \<not> (\<exists>v \<in> set ci_variables. environ env v \<noteq> None) then
        ebind (ask_user (user_inputs env)) (\<lambda>user_input.
          if user_input = ''yes'' then
            ebind (install_pyiron env (default_config_file env)) (\<lambda>opts. Inr (Some opts))
          else Inl ValueError)
      else Inr None)"

section \<open>Concrete inputs\<close>

text \<open>
  A host whose home directory is \<^verbatim>\<open>/home/u\<close>, with a configuration file at the default
  place holding the given options, no symbolic links, and the working directory
  \<^verbatim>\<open>/work\<close>. On it the path library takes the components of a path (dropping empty ones
  and \<^verbatim>\<open>.\<close>), replaces a leading \<^verbatim>\<open>~\<close> of a relative path by the home directory, puts
  the working directory before any other relative path, resolves \<^verbatim>\<open>..\<close> against the
  components before it (at the root it stays at the root), and joins the result with single
  slashes, without a trailing one. (A leading \<^verbatim>\<open>~name\<close> makes the library raise on this
  host, which has no other user; no statement below normalises such a path.)
\<close>

fun split_slash :: "string \<Rightarrow> string list" where
  "split_slash [] = [[]]"
| "split_slash (c # cs) =
     (if c = CHR ''/'' then [] # split_slash cs
      else (case split_slash cs of
              [] \<Rightarrow> [[c]]
            | w # ws \<Rightarrow> (c # w) # ws))"

fun resolve_parts :: "string list \<Rightarrow> string list \<Rightarrow> string list" where
  "resolve_parts seen [] = rev seen"
| "resolve_parts seen (c # cs) =
     (if c = ''..'' then resolve_parts (tl seen) cs else resolve_parts (c # seen) cs)"

definition demo_normalize :: "string \<Rightarrow> string" where
  "demo_normalize p =
     (let parts = filter (\<lambda>c. c \<noteq> [] \<and> c \<noteq> ''.'') (split_slash p);
          full = (if starts_with p ''/'' then parts
                  else (case parts of
                          [] \<Rightarrow> [''work'']
                        | c # cs \<Rightarrow> if c = ''~'' then [''home'', ''u''] @ cs
                                    else ''work'' # c # cs));
          resolved = resolve_parts [] full
      in if resolved = [] then ''/'' else concat (map (\<lambda>c. CHR ''/'' # c) resolved))"

definition demo_env :: "options \<Rightarrow> environment" where
  "demo_env opts =
     \<lparr>environ = Map.empty, home = ''/home/u'',
      isfile = (\<lambda>p. p = ''/home/u/.pyiron''), path_exists = (\<lambda>p. True),
      read_config = (\<lambda>p. opts), user_inputs = [],
      install_pyiron = (\<lambda>p. Inl OSError), makedirs = (\<lambda>p. None),
      normalize_path = demo_normalize, abs_curdir = ''/work''\<rparr>"

text \<open>The settings resolved on that host from an empty file and no overrides.\<close>

definition demo_settings :: settings where
  "demo_settings =
     \<lparr>configuration = default_configuration
        (''project_paths'' \<mapsto> PList [PStr ''/home/u/pyiron/projects/''],
         ''resource_paths'' \<mapsto> PList [PStr ''/home/u/pyiron/resources''],
         ''sql_file'' \<mapsto> PStr ''/home/u/pyiron/resources/sqlite.db'',
         ''sql_connection_string'' \<mapsto> PStr ''sqlite:////home/u/pyiron/resources/sqlite.db''),
      database = None, use_local_database = False, closed = [], printed = [], made_dirs = []\<rparr>"

definition demo_local_handle :: database_access where
  "demo_local_handle =
     \<lparr>connection_string = PStr ''sqlite:////work/a.db'',
      table_name = PStr ''jobs_pyiron'', viewer_mode = False\<rparr>"

definition demo_local_settings :: settings where
  "demo_local_settings =
     demo_settings\<lparr>database := Some demo_local_handle, use_local_database := True\<rparr>"

text \<open>A Postgres file with viewer credentials, and the settings resolved from it.\<close>

definition demo_postgres_options :: options where
  "demo_postgres_options =
     [''TYPE'' \<mapsto> ''Postgres'', ''USER'' \<mapsto> ''alice'', ''PASSWD'' \<mapsto> ''pw'',
      ''HOST'' \<mapsto> ''h'', ''NAME'' \<mapsto> ''d'', ''VIEWERUSER'' \<mapsto> ''v'',
      ''VIEWERPASSWD'' \<mapsto> ''vp'', ''VIEWER_TABLE'' \<mapsto> ''vt'']"

definition demo_postgres_settings :: settings where
  "demo_postgres_settings =
     \<lparr>configuration = default_configuration
        (''sql_type'' \<mapsto> PStr ''Postgres'',
         ''user'' \<mapsto> PStr ''alice'', ''sql_user_key'' \<mapsto> PStr ''pw'',
         ''sql_host'' \<mapsto> PStr ''h'', ''sql_database'' \<mapsto> PStr ''d'',
         ''sql_file'' \<mapsto> PNone,
         ''sql_view_table_name'' \<mapsto> PStr ''vt'', ''sql_view_user'' \<mapsto> PStr ''v'',
         ''sql_view_user_key'' \<mapsto> PStr ''vp'',
         ''project_paths'' \<mapsto> PList [PStr ''/home/u/pyiron/projects/''],
         ''resource_paths'' \<mapsto> PList [PStr ''/home/u/pyiron/resources''],
         ''sql_connection_string'' \<mapsto> PStr ''postgresql://alice:pw@h/d'',
         ''sql_view_connection_string'' \<mapsto> PStr ''postgresql://v:vp@h/d''),
      database = None, use_local_database = False, closed = [], printed = [], made_dirs = []\<rparr>"

text \<open>The same file with the override \<^verbatim>\<open>{'user': 'bob'}\<close>.\<close>

definition demo_bob_settings :: settings where
  "demo_bob_settings =
     \<lparr>configuration = default_configuration
        (''sql_type'' \<mapsto> PStr ''Postgres'',
         ''user'' \<mapsto> PStr ''alice'', ''sql_user_key'' \<mapsto> PStr ''pw'',
         ''sql_host'' \<mapsto> PStr ''h'', ''sql_database'' \<mapsto> PStr ''d'',
         ''sql_file'' \<mapsto> PNone,
         ''sql_view_table_name'' \<mapsto> PStr ''vt'', ''sql_view_user'' \<mapsto> PStr ''v'',
         ''sql_view_user_key'' \<mapsto> PStr ''vp'',
         ''user'' \<mapsto> PStr ''bob'',
         ''project_paths'' \<mapsto> PList [PStr ''/home/u/pyiron/projects/''],
         ''resource_paths'' \<mapsto> PList [PStr ''/home/u/pyiron/resources''],
         ''sql_connection_string'' \<mapsto> PStr ''postgresql://bob:pw@h/d'',
         ''sql_view_connection_string'' \<mapsto> PStr ''postgresql://v:vp@h/d''),
      database = None, use_local_database = False, closed = [], printed = [], made_dirs = []\<rparr>"

definition demo_primary_handle :: database_access where
  "demo_primary_handle =
     \<lparr>connection_string = PStr ''postgresql://alice:pw@h/d'',
      table_name = PStr ''jobs_pyiron'', viewer_mode = False\<rparr>"

definition demo_viewer_handle :: database_access where
  "demo_viewer_handle =
     \<lparr>connection_string = PStr ''postgresql://v:vp@h/d'',
      table_name = PStr ''vt'', viewer_mode = True\<rparr>"

text \<open>The Postgres settings after \<open>open_connection\<close> and \<open>switch_to_viewer_mode\<close>.\<close>

definition demo_reader_settings :: settings where
  "demo_reader_settings =
     demo_postgres_settings\<lparr>database := Some demo_viewer_handle, closed := [demo_primary_handle]\<rparr>"

text \<open>A MySQL file with the same credentials.\<close>

definition demo_mysql_options :: options where
  "demo_mysql_options =
     [''TYPE'' \<mapsto> ''MySQL'', ''USER'' \<mapsto> ''alice'', ''PASSWD'' \<mapsto> ''pw'',
      ''HOST'' \<mapsto> ''h'', ''NAME'' \<mapsto> ''d'', ''VIEWERUSER'' \<mapsto> ''v'',
      ''VIEWERPASSWD'' \<mapsto> ''vp'', ''VIEWER_TABLE'' \<mapsto> ''vt'']"

text \<open>A file that gives a raw connection string, and an override of that string.\<close>

definition demo_raw_options :: options where
  "demo_raw_options =
     [''TYPE'' \<mapsto> ''SQLalchemy'', ''CONNECTION'' \<mapsto> ''postgresql://file:pw@h/d'']"

definition demo_raw_override :: "(string \<times> pyval) list" where
  "demo_raw_override = [(''sql_connection_string'', PStr ''postgresql://me:pw@h/d'')]"

section \<open>Basic facts\<close>

lemma ebind_eq_Inr: "(ebind m f = Inr y) = (\<exists>x. m = Inr x \<and> f x = Inr y)"
  by (cases m) (simp_all add: ebind_def)

lemma getitem_eq_Inr: "(getitem c k = Inr v) = (c k = Some v)"
  by (cases "c k") (simp_all add: getitem_def)

lemma default_configuration_lookup:
  "default_configuration ''user'' = Some (PStr ''pyiron'')"
  "default_configuration ''resource_paths'' = Some (PList [PStr ''~/pyiron/resources''])"
  "default_configuration ''project_paths'' = Some (PList [PStr ''~/pyiron/projects''])"
  "default_configuration ''sql_connection_string'' = Some PNone"
  "default_configuration ''sql_table_name'' = Some (PStr ''jobs_pyiron'')"
  "default_configuration ''sql_view_connection_string'' = Some PNone"
  "default_configuration ''sql_view_table_name'' = Some PNone"
  "default_configuration ''sql_view_user'' = Some PNone"
  "default_configuration ''sql_view_user_key'' = Some PNone"
  "default_configuration ''sql_file'' = Some PNone"
  "default_configuration ''sql_host'' = Some PNone"
  "default_configuration ''sql_type'' = Some (PStr ''SQLite'')"
  "default_configuration ''sql_user_key'' = Some PNone"
  "default_configuration ''sql_database'' = Some PNone"
  by (simp_all add: default_configuration_def)

text \<open>The equations that evaluate \<open>Settings_init\<close> on a concrete environment.\<close>

lemmas init_defs =
  Settings_init_def load_file_def default_config_file_def rstrip_slash_def
  config_parse_file_def parse_type_and_paths_def parse_backend_def parse_sqlite_file_def
  parse_credentials_def getitem_def ebind_def is_list_def is_str_def
  normalize_paths_def iterate_def project_path_entry_def resource_path_entry_def
  convert_path_def build_connection_strings_def build_sqlite_def first_item_def
  join_sqlite_db_def as_str_def dirname_def replace_backslash_def credentials_url_def
  str_add_def file_path_list_def strip_def is_space_def ci_variables_def
  demo_env_def demo_normalize_def Let_def default_configuration_lookup

subsection \<open>The stages of resolution\<close>

lemma load_file_discover:
  "load_file env c =
     ebind (discover_options env)
       (\<lambda>found. case found of None \<Rightarrow> Inr c | Some opts \<Rightarrow> config_parse_file env opts c)"
  by (simp add: load_file_def discover_options_def ebind_def Let_def split: sum.splits)

lemma Settings_init_stages:
  assumes "Settings_init env config = Inr s"
  shows "\<exists>c1 c3 d. load_file env default_configuration = Inr c1
           \<and> normalize_paths env (case config of None \<Rightarrow> c1 | Some items \<Rightarrow> merge_overrides items c1)
               = Inr c3
           \<and> build_connection_strings env c3 = Inr (configuration s, d)
           \<and> database s = None \<and> \<not> use_local_database s \<and> closed s = [] \<and> printed s = []"
  using assms by (auto simp: Settings_init_def ebind_eq_Inr Let_def)

subsection \<open>The file\<close>


lemma parse_type_and_paths_type:
  "opts ''TYPE'' = Some t \<Longrightarrow> parse_type_and_paths env opts c ''sql_type'' = Some (PStr t)"
  by (simp add: parse_type_and_paths_def Let_def split: option.splits)


lemma parse_credentials_type:
  "parse_credentials opts c = Inr c' \<Longrightarrow> c' ''sql_type'' = c ''sql_type''"
  by (auto simp: parse_credentials_def Let_def split: option.splits)

lemma parse_credentials_user:
  "parse_credentials opts c = Inr c' \<Longrightarrow> opts ''USER'' = Some u \<Longrightarrow> c' ''user'' = Some (PStr u)"
  by (auto simp: parse_credentials_def Let_def split: option.splits)


lemma parse_sqlite_file_frame: "k \<noteq> ''sql_file'' \<Longrightarrow> parse_sqlite_file opts c k = c k"
  by (simp add: parse_sqlite_file_def Let_def split: option.splits)


lemma parse_backend_type:
  assumes "parse_backend opts c = Inr c'"
  shows "c' ''sql_type'' = c ''sql_type''"
proof -
  from assms obtain ty where
    branch:
      "(if ty = PStr ''Postgres'' \<or> ty = PStr ''MySQL'' then parse_credentials opts c
        else if ty = PStr ''SQLalchemy'' then
          (case opts ''CONNECTION'' of
             None \<Rightarrow> Inl NoOptionError
           | Some v \<Rightarrow> Inr (c(''sql_connection_string'' \<mapsto> PStr v)))
        else Inr (parse_sqlite_file opts c)) = Inr c'"
    by (auto simp: parse_backend_def ebind_eq_Inr)
  show ?thesis
  proof (cases "ty = PStr ''Postgres'' \<or> ty = PStr ''MySQL''")
    case True
    with branch have "parse_credentials opts c = Inr c'" by simp
    then show ?thesis by (rule parse_credentials_type)
  next
    case False
    with branch show ?thesis
      by (auto simp: parse_sqlite_file_frame split: if_splits option.splits)
  qed
qed

lemma parse_backend_user:
  assumes "parse_backend opts c = Inr c'"
    and "c ''sql_type'' = Some (PStr ''Postgres'') \<or> c ''sql_type'' = Some (PStr ''MySQL'')"
    and "opts ''USER'' = Some u"
  shows "c' ''user'' = Some (PStr u)"
proof -
  from assms(1,2) have "parse_credentials opts c = Inr c'"
    by (auto simp: parse_backend_def ebind_eq_Inr getitem_eq_Inr)
  then show ?thesis using assms(3) by (rule parse_credentials_user)
qed

lemma config_parse_file_parts:
  assumes "config_parse_file env opts c = Inr c'"
  shows "\<exists>c4. parse_backend opts (parse_type_and_paths env opts c) = Inr c4
           \<and> c' = (case opts ''JOB_TABLE'' of
                     Some t \<Rightarrow> c4(''sql_table_name'' \<mapsto> PStr t) | None \<Rightarrow> c4)"
  using assms by (auto simp: config_parse_file_def ebind_eq_Inr)


lemma config_parse_file_type:
  assumes "config_parse_file env opts c = Inr c'" and "opts ''TYPE'' = Some t"
  shows "c' ''sql_type'' = Some (PStr t)"
proof -
  from config_parse_file_parts [OF assms(1)] obtain c4
    where c4: "parse_backend opts (parse_type_and_paths env opts c) = Inr c4"
      and c': "c' = (case opts ''JOB_TABLE'' of
                       Some t \<Rightarrow> c4(''sql_table_name'' \<mapsto> PStr t) | None \<Rightarrow> c4)"
    by blast
  from parse_backend_type [OF c4] assms(2) have "c4 ''sql_type'' = Some (PStr t)"
    by (simp add: parse_type_and_paths_type)
  with c' show ?thesis by (simp split: option.splits)
qed

lemma config_parse_file_job_table:
  assumes "config_parse_file env opts c = Inr c'" and "opts ''JOB_TABLE'' = Some t"
  shows "c' ''sql_table_name'' = Some (PStr t)"
  using config_parse_file_parts [OF assms(1)] assms(2) by auto

lemma config_parse_file_user:
  assumes "config_parse_file env opts c = Inr c'"
    and "opts ''TYPE'' = Some ''Postgres'' \<or> opts ''TYPE'' = Some ''MySQL''"
    and "opts ''USER'' = Some u"
  shows "c' ''user'' = Some (PStr u)"
proof -
  from config_parse_file_parts [OF assms(1)] obtain c4
    where c4: "parse_backend opts (parse_type_and_paths env opts c) = Inr c4"
      and c': "c' = (case opts ''JOB_TABLE'' of
                       Some t \<Rightarrow> c4(''sql_table_name'' \<mapsto> PStr t) | None \<Rightarrow> c4)"
    by blast
  from assms(2) have "parse_type_and_paths env opts c ''sql_type'' = Some (PStr ''Postgres'')
      \<or> parse_type_and_paths env opts c ''sql_type'' = Some (PStr ''MySQL'')"
    by (auto simp: parse_type_and_paths_type)
  from parse_backend_user [OF c4 this assms(3)] have "c4 ''user'' = Some (PStr u)" .
  with c' show ?thesis by (simp split: option.splits)
qed

lemma load_file_parsed:
  assumes "load_file env c = Inr c1" and "discover_options env = Inr (Some opts)"
  shows "config_parse_file env opts c = Inr c1"
  using assms by (simp add: load_file_discover ebind_def)


subsection \<open>The overrides\<close>

lemma merge_overrides_other:
  "k \<notin> fst ` set items \<Longrightarrow> merge_overrides items c k = c k"
  by (induction items arbitrary: c) auto

lemma merge_overrides_wins:
  "distinct (map fst items) \<Longrightarrow> (k, v) \<in> set items \<Longrightarrow>
   k \<notin> {''resource_paths'', ''project_paths''} \<or> is_list v \<Longrightarrow>
   merge_overrides items c k = Some v"
proof (induction items arbitrary: c)
  case Nil
  then show ?case by simp
next
  case (Cons a items)
  obtain k' v' where a: "a = (k', v')" by (cases a)
  show ?case
  proof (cases "(k, v) = a")
    case True
    with Cons.prems a have "k \<notin> fst ` set items" by auto
    with True a Cons.prems(3) show ?thesis by (auto simp: merge_overrides_other)
  next
    case False
    with Cons.prems a have "(k, v) \<in> set items" "distinct (map fst items)" by auto
    with Cons.IH Cons.prems(3) a show ?thesis by simp
  qed
qed


subsection \<open>Normalising the path lists\<close>

lemma normalize_paths_frame:
  "normalize_paths env c = Inr c' \<Longrightarrow> k \<noteq> ''project_paths'' \<Longrightarrow> k \<noteq> ''resource_paths'' \<Longrightarrow>
   c' k = c k"
  by (auto simp: normalize_paths_def ebind_eq_Inr Let_def)

lemma normalize_paths_project:
  assumes "normalize_paths env c = Inr c'" and "c ''project_paths'' = Some (PList ps)"
  shows "\<exists>ps'. map_err (project_path_entry env) ps = Inr ps'
           \<and> c' ''project_paths'' = Some (PList ps')"
  using assms
  by (auto simp: normalize_paths_def ebind_eq_Inr getitem_eq_Inr iterate_def Let_def)

lemma normalize_paths_resource_list:
  assumes "normalize_paths env c = Inr c'" and "c ''resource_paths'' = Some (PList rs)"
  shows "\<exists>rs'. map_err (resource_path_entry env) rs = Inr rs'
           \<and> c' ''resource_paths'' = Some (PList rs')"
  using assms
  by (auto simp: normalize_paths_def ebind_eq_Inr getitem_eq_Inr iterate_def Let_def)



subsection \<open>Building the connection strings\<close>


lemma build_sqlite_frame:
  "build_sqlite env c = Inr (c', d) \<Longrightarrow> k \<noteq> ''sql_connection_string'' \<Longrightarrow> k \<noteq> ''sql_file'' \<Longrightarrow>
   c' k = c k"
  by (auto simp: build_sqlite_def ebind_eq_Inr split: if_splits)

lemma build_sqlite_keeps_file:
  "build_sqlite env c = Inr (c', d) \<Longrightarrow> c ''sql_file'' = Some v \<Longrightarrow> v \<noteq> PNone \<Longrightarrow>
   c' ''sql_file'' = Some v"
  by (auto simp: build_sqlite_def ebind_eq_Inr getitem_eq_Inr split: if_splits)



lemma build_connection_strings_frame:
  "build_connection_strings env c = Inr (c', d) \<Longrightarrow> k \<noteq> ''sql_connection_string'' \<Longrightarrow>
   k \<noteq> ''sql_view_connection_string'' \<Longrightarrow> k \<noteq> ''sql_file'' \<Longrightarrow> c' k = c k"
  by (auto simp: build_connection_strings_def ebind_eq_Inr Let_def build_sqlite_frame
      split: if_splits)

lemma build_connection_strings_keeps_file:
  "build_connection_strings env c = Inr (c', d) \<Longrightarrow> c ''sql_file'' = Some v \<Longrightarrow> v \<noteq> PNone \<Longrightarrow>
   c' ''sql_file'' = Some v"
  by (auto simp: build_connection_strings_def ebind_eq_Inr Let_def build_sqlite_keeps_file
      split: if_splits)

subsection \<open>The concrete inputs\<close>

lemma demo_settings_resolved: "Settings_init (demo_env Map.empty) None = Inr demo_settings"
  by (simp add: init_defs demo_settings_def)

lemma demo_postgres_settings_resolved:
  "Settings_init (demo_env demo_postgres_options) None = Inr demo_postgres_settings"
  by (simp add: init_defs demo_postgres_options_def demo_postgres_settings_def)

lemma demo_bob_settings_resolved:
  "Settings_init (demo_env demo_postgres_options) (Some [(''user'', PStr ''bob'')])
     = Inr demo_bob_settings"
  by (simp add: init_defs demo_postgres_options_def demo_bob_settings_def)

lemma demo_reader_settings_reached:
  "ebind (open_connection demo_postgres_settings) switch_to_viewer_mode = Inr demo_reader_settings"
  by (simp add: open_connection_def switch_to_viewer_mode_def close_connection_def getitem_def
      ebind_def DatabaseAccess_def demo_postgres_settings_def demo_reader_settings_def
      demo_viewer_handle_def demo_primary_handle_def default_configuration_lookup)

lemma demo_local_settings_reached:
  "switch_to_local_database (demo_env Map.empty) ''a.db'' None demo_settings = Inr demo_local_settings"
  by (simp add: switch_to_local_database_def close_connection_def getitem_def ebind_def
      DatabaseAccess_def isabs_def path_join_def demo_env_def demo_settings_def
      demo_local_settings_def demo_local_handle_def default_configuration_lookup)

subsection \<open>Where the overrides and the file do win\<close>

text \<open>
  For a successful resolution with an overrides dictionary:
  \<^item> a key bound by the overrides, other than the two path lists and the entries
    \<^verbatim>\<open>sql_connection_string\<close> and \<^verbatim>\<open>sql_view_connection_string\<close> that \<^verbatim>\<open>__init__\<close> writes
    afterwards, holds the override value, whatever the file supplied (for \<^verbatim>\<open>sql_file\<close>:
    when the override is not \<^verbatim>\<open>None\<close>);
  \<^item> a list bound to \<^verbatim>\<open>project_paths\<close> or \<^verbatim>\<open>resource_paths\<close> replaces the list of the
    file, and what is held is that list passed entry by entry through
    \<open>project_path_entry\<close> or \<open>resource_path_entry\<close>;
  \<^item> among the keys the overrides do not bind, the SQL type, the table name and (for a
    Postgres or MySQL file) the user hold the value of the file rather than the default.
\<close>

lemma override_precedence:
  assumes "Settings_init env (Some items) = Inr s" and "distinct (map fst items)"
  shows "(\<forall>k v. (k, v) \<in> set items
            \<and> k \<notin> {''project_paths'', ''resource_paths'', ''sql_connection_string'',
                   ''sql_view_connection_string''}
            \<and> (k = ''sql_file'' \<longrightarrow> v \<noteq> PNone)
            \<longrightarrow> configuration s k = Some v)
       \<and> (\<forall>ps. (''project_paths'', PList ps) \<in> set items \<longrightarrow>
            (\<exists>ps'. map_err (project_path_entry env) ps = Inr ps'
                 \<and> configuration s ''project_paths'' = Some (PList ps')))
       \<and> (\<forall>rs. (''resource_paths'', PList rs) \<in> set items \<longrightarrow>
            (\<exists>rs'. map_err (resource_path_entry env) rs = Inr rs'
                 \<and> configuration s ''resource_paths'' = Some (PList rs')))
       \<and> (\<forall>opts. discover_options env = Inr (Some opts) \<longrightarrow>
            (\<forall>t. opts ''TYPE'' = Some t \<and> ''sql_type'' \<notin> fst ` set items
                 \<longrightarrow> configuration s ''sql_type'' = Some (PStr t))
          \<and> (\<forall>t. opts ''JOB_TABLE'' = Some t \<and> ''sql_table_name'' \<notin> fst ` set items
                 \<longrightarrow> configuration s ''sql_table_name'' = Some (PStr t))
          \<and> (\<forall>u. opts ''USER'' = Some u
                 \<and> (opts ''TYPE'' = Some ''Postgres'' \<or> opts ''TYPE'' = Some ''MySQL'')
                 \<and> ''user'' \<notin> fst ` set items
                 \<longrightarrow> configuration s ''user'' = Some (PStr u)))"
proof -
  from Settings_init_stages [OF assms(1)] obtain c1 c3 d
    where load: "load_file env default_configuration = Inr c1"
      and norm: "normalize_paths env (merge_overrides items c1) = Inr c3"
      and build: "build_connection_strings env c3 = Inr (configuration s, d)"
    by auto
  have plain: "configuration s k = Some v"
    if "(k, v) \<in> set items"
      and "k \<notin> {''project_paths'', ''resource_paths'', ''sql_connection_string'',
                ''sql_view_connection_string''}"
      and "k = ''sql_file'' \<longrightarrow> v \<noteq> PNone" for k v
  proof -
    from that(1,2) assms(2) have "merge_overrides items c1 k = Some v"
      by (intro merge_overrides_wins) auto
    with that(2) have c3: "c3 k = Some v"
      using normalize_paths_frame [OF norm, of k] by simp
    show ?thesis
    proof (cases "k = ''sql_file''")
      case True
      with c3 that(3) build show ?thesis
        by (auto dest: build_connection_strings_keeps_file)
    next
      case False
      with c3 that(2) show ?thesis
        using build_connection_strings_frame [OF build, of k] by simp
    qed
  qed
  have project: "\<exists>ps'. map_err (project_path_entry env) ps = Inr ps'
                   \<and> configuration s ''project_paths'' = Some (PList ps')"
    if "(''project_paths'', PList ps) \<in> set items" for ps
  proof -
    from that assms(2) have "merge_overrides items c1 ''project_paths'' = Some (PList ps)"
      by (intro merge_overrides_wins) (auto simp: is_list_def)
    from normalize_paths_project [OF norm this] obtain ps'
      where "map_err (project_path_entry env) ps = Inr ps'"
        and "c3 ''project_paths'' = Some (PList ps')"
      by blast
    then show ?thesis
      using build_connection_strings_frame [OF build, of "''project_paths''"] by simp
  qed
  have resource: "\<exists>rs'. map_err (resource_path_entry env) rs = Inr rs'
                    \<and> configuration s ''resource_paths'' = Some (PList rs')"
    if "(''resource_paths'', PList rs) \<in> set items" for rs
  proof -
    from that assms(2) have "merge_overrides items c1 ''resource_paths'' = Some (PList rs)"
      by (intro merge_overrides_wins) (auto simp: is_list_def)
    from normalize_paths_resource_list [OF norm this] obtain rs'
      where "map_err (resource_path_entry env) rs = Inr rs'"
        and "c3 ''resource_paths'' = Some (PList rs')"
      by blast
    then show ?thesis
      using build_connection_strings_frame [OF build, of "''resource_paths''"] by simp
  qed
  have kept: "configuration s k = c1 k"
    if "k \<notin> fst ` set items" and "k \<in> {''sql_type'', ''sql_table_name'', ''user''}" for k
  proof -
    from that(1) have "merge_overrides items c1 k = c1 k" by (rule merge_overrides_other)
    with that(2) have "c3 k = c1 k"
      using normalize_paths_frame [OF norm, of k] by auto
    with that(2) show ?thesis
      using build_connection_strings_frame [OF build, of k] by auto
  qed
  have overridden:
    "\<forall>k v. (k, v) \<in> set items
            \<and> k \<notin> {''project_paths'', ''resource_paths'', ''sql_connection_string'',
                   ''sql_view_connection_string''}
            \<and> (k = ''sql_file'' \<longrightarrow> v \<noteq> PNone)
            \<longrightarrow> configuration s k = Some v"
    by (intro allI impI, elim conjE, rule plain)
  have project_list:
    "\<forall>ps. (''project_paths'', PList ps) \<in> set items \<longrightarrow>
            (\<exists>ps'. map_err (project_path_entry env) ps = Inr ps'
                 \<and> configuration s ''project_paths'' = Some (PList ps'))"
    by (intro allI impI, rule project)
  have resource_list:
    "\<forall>rs. (''resource_paths'', PList rs) \<in> set items \<longrightarrow>
            (\<exists>rs'. map_err (resource_path_entry env) rs = Inr rs'
                 \<and> configuration s ''resource_paths'' = Some (PList rs'))"
    by (intro allI impI, rule resource)
  have from_file:
    "\<forall>opts. discover_options env = Inr (Some opts) \<longrightarrow>
            (\<forall>t. opts ''TYPE'' = Some t \<and> ''sql_type'' \<notin> fst ` set items
                 \<longrightarrow> configuration s ''sql_type'' = Some (PStr t))
          \<and> (\<forall>t. opts ''JOB_TABLE'' = Some t \<and> ''sql_table_name'' \<notin> fst ` set items
                 \<longrightarrow> configuration s ''sql_table_name'' = Some (PStr t))
          \<and> (\<forall>u. opts ''USER'' = Some u
                 \<and> (opts ''TYPE'' = Some ''Postgres'' \<or> opts ''TYPE'' = Some ''MySQL'')
                 \<and> ''user'' \<notin> fst ` set items
                 \<longrightarrow> configuration s ''user'' = Some (PStr u))"
  proof (intro allI impI conjI)
    fix opts t
    assume found: "discover_options env = Inr (Some opts)"
      and t: "opts ''TYPE'' = Some t \<and> ''sql_type'' \<notin> fst ` set items"
    from load_file_parsed [OF load found]
    have parsed: "config_parse_file env opts default_configuration = Inr c1" .
    from t have "configuration s ''sql_type'' = c1 ''sql_type''" by (intro kept) simp_all
    also from t have "c1 ''sql_type'' = Some (PStr t)"
      by (intro config_parse_file_type [OF parsed]) simp
    finally show "configuration s ''sql_type'' = Some (PStr t)" .
  next
    fix opts t
    assume found: "discover_options env = Inr (Some opts)"
      and t: "opts ''JOB_TABLE'' = Some t \<and> ''sql_table_name'' \<notin> fst ` set items"
    from load_file_parsed [OF load found]
    have parsed: "config_parse_file env opts default_configuration = Inr c1" .
    from t have "configuration s ''sql_table_name'' = c1 ''sql_table_name''"
      by (intro kept) simp_all
    also from t have "c1 ''sql_table_name'' = Some (PStr t)"
      by (intro config_parse_file_job_table [OF parsed]) simp
    finally show "configuration s ''sql_table_name'' = Some (PStr t)" .
  next
    fix opts u
    assume found: "discover_options env = Inr (Some opts)"
      and u: "opts ''USER'' = Some u
                \<and> (opts ''TYPE'' = Some ''Postgres'' \<or> opts ''TYPE'' = Some ''MySQL'')
                \<and> ''user'' \<notin> fst ` set items"
    from load_file_parsed [OF load found]
    have parsed: "config_parse_file env opts default_configuration = Inr c1" .
    from u have "configuration s ''user'' = c1 ''user''" by (intro kept) simp_all
    also from u have "c1 ''user'' = Some (PStr u)"
      by (intro config_parse_file_user [OF parsed]) simp_all
    finally show "configuration s ''user'' = Some (PStr u)" .
  qed
  show ?thesis
    by (rule conjI [OF overridden conjI [OF project_list conjI [OF resource_list from_file]]])
qed

text \<open>
  An instance: the file says \<^verbatim>\<open>USER = alice\<close> and \<^verbatim>\<open>TYPE = Postgres\<close>, the overrides are
  \<^verbatim>\<open>{'user': 'bob'}\<close>; the resolved user is \<^verbatim>\<open>bob\<close> and the resolved type is that of the
  file, not the default \<^verbatim>\<open>SQLite\<close>.
\<close>

lemma override_precedence_alice_bob:
  "Settings_init (demo_env demo_postgres_options) (Some [(''user'', PStr ''bob'')])
     = Inr demo_bob_settings
   \<and> distinct (map fst [(''user'', PStr ''bob'')])
   \<and> demo_postgres_options ''USER'' = Some ''alice''
   \<and> configuration demo_bob_settings ''user'' = Some (PStr ''bob'')
   \<and> discover_options (demo_env demo_postgres_options) = Inr (Some demo_postgres_options)
   \<and> configuration demo_bob_settings ''sql_type'' = Some (PStr ''Postgres'')"
proof -
  have d: "distinct (map fst [(''user'', PStr ''bob'')])" by simp
  have found: "discover_options (demo_env demo_postgres_options) = Inr (Some demo_postgres_options)"
    by (simp add: discover_options_def demo_env_def default_config_file_def rstrip_slash_def)
  have opts: "demo_postgres_options ''USER'' = Some ''alice''"
    "demo_postgres_options ''TYPE'' = Some ''Postgres''"
    by (simp_all add: demo_postgres_options_def)
  note facts = override_precedence [OF demo_bob_settings_resolved d]
  from facts have "configuration demo_bob_settings ''user'' = Some (PStr ''bob'')" by simp
  moreover from facts found opts(2)
  have "configuration demo_bob_settings ''sql_type'' = Some (PStr ''Postgres'')" by simp
  ultimately show ?thesis
    using demo_bob_settings_resolved d found opts(1) by blast
qed

subsection \<open>Keys are never removed\<close>

lemma parse_type_and_paths_dom: "dom c \<subseteq> dom (parse_type_and_paths env opts c)"
  by (auto simp: parse_type_and_paths_def Let_def split: option.splits)

lemma parse_credentials_dom: "parse_credentials opts c = Inr c' \<Longrightarrow> dom c \<subseteq> dom c'"
  by (auto simp: parse_credentials_def Let_def split: option.splits)

lemma parse_sqlite_file_dom: "dom c \<subseteq> dom (parse_sqlite_file opts c)"
  by (auto simp: parse_sqlite_file_def Let_def split: option.splits)

lemma parse_backend_dom:
  assumes "parse_backend opts c = Inr c'"
  shows "dom c \<subseteq> dom c'"
proof -
  from assms obtain ty where
    branch:
      "(if ty = PStr ''Postgres'' \<or> ty = PStr ''MySQL'' then parse_credentials opts c
        else if ty = PStr ''SQLalchemy'' then
          (case opts ''CONNECTION'' of
             None \<Rightarrow> Inl NoOptionError
           | Some v \<Rightarrow> Inr (c(''sql_connection_string'' \<mapsto> PStr v)))
        else Inr (parse_sqlite_file opts c)) = Inr c'"
    by (auto simp: parse_backend_def ebind_eq_Inr)
  show ?thesis
  proof (cases "ty = PStr ''Postgres'' \<or> ty = PStr ''MySQL''")
    case True
    with branch have "parse_credentials opts c = Inr c'" by simp
    then show ?thesis by (rule parse_credentials_dom)
  next
    case False
    with branch parse_sqlite_file_dom [of c opts] show ?thesis
      by (auto split: if_splits option.splits)
  qed
qed

lemma config_parse_file_dom:
  assumes "config_parse_file env opts c = Inr c'"
  shows "dom c \<subseteq> dom c'"
proof -
  from config_parse_file_parts [OF assms] obtain c4
    where c4: "parse_backend opts (parse_type_and_paths env opts c) = Inr c4"
      and c': "c' = (case opts ''JOB_TABLE'' of
                       Some t \<Rightarrow> c4(''sql_table_name'' \<mapsto> PStr t) | None \<Rightarrow> c4)"
    by blast
  from c' have "dom c4 \<subseteq> dom c'" by (auto split: option.splits)
  with parse_backend_dom [OF c4] parse_type_and_paths_dom [of c env opts] show ?thesis
    by blast
qed

lemma load_file_dom:
  assumes "load_file env c = Inr c1"
  shows "dom c \<subseteq> dom c1"
proof -
  from assms obtain found where
    rest: "(case found of None \<Rightarrow> Inr c | Some opts \<Rightarrow> config_parse_file env opts c) = Inr c1"
    by (auto simp: load_file_discover ebind_eq_Inr)
  then show ?thesis
    by (cases found) (auto dest: config_parse_file_dom)
qed

lemma merge_overrides_dom: "dom c \<subseteq> dom (merge_overrides items c)"
proof (induction items arbitrary: c)
  case Nil
  then show ?case by simp
next
  case (Cons a items)
  obtain k v where a: "a = (k, v)" by (cases a)
  let ?c = "if k \<notin> {''resource_paths'', ''project_paths''} \<or> is_list v then c(k \<mapsto> v)
            else if is_str v then c(k \<mapsto> PList [v]) else c"
  have "dom c \<subseteq> dom ?c" by auto
  also have "dom ?c \<subseteq> dom (merge_overrides items ?c)" by (rule Cons.IH)
  finally show ?case by (simp add: a)
qed

lemma normalize_paths_dom: "normalize_paths env c = Inr c' \<Longrightarrow> dom c \<subseteq> dom c'"
  by (auto simp: normalize_paths_def ebind_eq_Inr Let_def)

lemma build_sqlite_dom: "build_sqlite env c = Inr (c', d) \<Longrightarrow> dom c \<subseteq> dom c'"
  by (auto simp: build_sqlite_def ebind_eq_Inr split: if_splits)

lemma build_connection_strings_dom:
  "build_connection_strings env c = Inr (c', d) \<Longrightarrow> dom c \<subseteq> dom c'"
  by (auto simp: build_connection_strings_def ebind_eq_Inr Let_def
      dest: build_sqlite_dom split: if_splits)

text \<open>
  Every successful \<open>Settings_init\<close> leaves the object without a handle and with the local
  flag clear, and the dictionary binds the primary connection string and the table name.
\<close>

lemma build_connection_strings_primary:
  "build_connection_strings env c = Inr (c', d) \<Longrightarrow> \<exists>cs. c' ''sql_connection_string'' = Some (PStr cs)"
  by (auto simp: build_connection_strings_def build_sqlite_def ebind_eq_Inr Let_def
      split: if_splits)

lemma Settings_init_start:
  assumes "Settings_init env config = Inr s"
  shows "database s = None \<and> \<not> use_local_database s
         \<and> (\<exists>cs. configuration s ''sql_connection_string'' = Some (PStr cs))
         \<and> (\<exists>tn. configuration s ''sql_table_name'' = Some tn)"
proof -
  from Settings_init_stages [OF assms] obtain c1 c3 d
    where load: "load_file env default_configuration = Inr c1"
      and norm: "normalize_paths env
                   (case config of None \<Rightarrow> c1 | Some items \<Rightarrow> merge_overrides items c1) = Inr c3"
      and build: "build_connection_strings env c3 = Inr (configuration s, d)"
      and start: "database s = None" "\<not> use_local_database s"
    by blast
  have "''sql_table_name'' \<in> dom default_configuration"
    by (simp add: dom_def default_configuration_lookup)
  with load_file_dom [OF load] have "''sql_table_name'' \<in> dom c1" by blast
  then have "''sql_table_name''
               \<in> dom (case config of None \<Rightarrow> c1 | Some items \<Rightarrow> merge_overrides items c1)"
    using merge_overrides_dom [of c1] by (cases config) auto
  with normalize_paths_dom [OF norm] have "''sql_table_name'' \<in> dom c3" by blast
  with build_connection_strings_dom [OF build]
  have "''sql_table_name'' \<in> dom (configuration s)" by blast
  then have "\<exists>tn. configuration s ''sql_table_name'' = Some tn" by auto
  with start build_connection_strings_primary [OF build] show ?thesis by blast
qed

section \<open>The claims\<close>

subsection \<open>C1: precedence of overrides, file and defaults\<close>

text \<open>
  C1 says that for every key the overrides win over the file and the file over the
  defaults. \<^verbatim>\<open>_config_parse_file\<close> takes the raw connection string of a file with
  \<^verbatim>\<open>TYPE = SQLalchemy\<close> from \<^verbatim>\<open>CONNECTION\<close>, but \<^verbatim>\<open>__init__\<close> has a branch for Postgres
  and one for MySQL only and treats every other type as SQLite: with such a file the
  resolved type is \<^verbatim>\<open>SQLalchemy\<close>, and \<^verbatim>\<open>sql_connection_string\<close> is the SQLite string of
  the default database file, with no overrides (the value of the file is lost) and with an
  override of \<^verbatim>\<open>sql_connection_string\<close> (the override value is lost as well).
\<close>

theorem C1_raw_connection_string_overwritten:
  "demo_raw_options ''CONNECTION'' = Some ''postgresql://file:pw@h/d''
   \<and> ebind (Settings_init (demo_env demo_raw_options) None) (lookup ''sql_type'')
       = Inr (PStr ''SQLalchemy'')
   \<and> ebind (Settings_init (demo_env demo_raw_options) None) (lookup ''sql_connection_string'')
       = Inr (PStr ''sqlite:////home/u/pyiron/resources/sqlite.db'')
   \<and> map_of demo_raw_override ''sql_connection_string'' = Some (PStr ''postgresql://me:pw@h/d'')
   \<and> ebind (Settings_init (demo_env demo_raw_options) (Some demo_raw_override))
         (lookup ''sql_connection_string'')
       = Inr (PStr ''sqlite:////home/u/pyiron/resources/sqlite.db'')"
  by (simp add: init_defs demo_raw_options_def demo_raw_override_def lookup_def)

subsection \<open>C2: an override of a path list that is neither a list nor a string\<close>

text \<open>
  C2 says that the override \<^verbatim>\<open>{'project_paths': 5}\<close> makes resolution fail. The code builds
  the \<^verbatim>\<open>TypeError\<close> and drops it: resolution succeeds, with exactly the settings it yields
  without any override, the project paths being the normalised default; and on every host an
  integer bound to \<^verbatim>\<open>project_paths\<close> resolves as no overrides at all do.
\<close>

theorem C2_int_override_is_not_rejected:
  "Settings_init (demo_env Map.empty) (Some [(''project_paths'', PInt 5)]) = Inr demo_settings
   \<and> Settings_init (demo_env Map.empty) None = Inr demo_settings
   \<and> lookup ''project_paths'' demo_settings = Inr (PList [PStr ''/home/u/pyiron/projects/''])
   \<and> Settings_init env (Some [(''project_paths'', PInt n)]) = Settings_init env None"
proof -
  have ignored: "Settings_init e (Some [(''project_paths'', PInt i)]) = Settings_init e None"
    for e i
    by (simp add: Settings_init_def is_list_def is_str_def)
  have "lookup ''project_paths'' demo_settings = Inr (PList [PStr ''/home/u/pyiron/projects/''])"
    by (simp add: lookup_def getitem_def demo_settings_def)
  with ignored [of env n] ignored [of "demo_env Map.empty" 5] demo_settings_resolved
  show ?thesis by simp
qed

subsection \<open>C3: the environment variable PYIRONCONFIG\<close>

text \<open>
  C3 says that a set \<^verbatim>\<open>PYIRONCONFIG\<close> names the file to read. In the code, whenever the
  variable is set, \<^verbatim>\<open>__init__\<close> raises TypeError before any file is looked at, whatever
  the value of the variable and whatever the overrides.
\<close>

theorem C3_pyironconfig_set_raises:
  "environ env ''PYIRONCONFIG'' = Some p \<Longrightarrow> Settings_init env config = Inl TypeError"
  by (simp add: Settings_init_def load_file_def ebind_def)

text \<open>C3, an instance: \<^verbatim>\<open>PYIRONCONFIG=/etc/pyiron.cfg\<close>.\<close>

theorem C3_pyironconfig_set_raises_witness:
  "environ ((demo_env Map.empty)\<lparr>environ := [''PYIRONCONFIG'' \<mapsto> ''/etc/pyiron.cfg'']\<rparr>) ''PYIRONCONFIG''
     = Some ''/etc/pyiron.cfg''
   \<and> Settings_init ((demo_env Map.empty)\<lparr>environ := [''PYIRONCONFIG'' \<mapsto> ''/etc/pyiron.cfg'']\<rparr>) None
     = Inl TypeError"
  using C3_pyironconfig_set_raises
    [of "(demo_env Map.empty)\<lparr>environ := [''PYIRONCONFIG'' \<mapsto> ''/etc/pyiron.cfg'']\<rparr>"
        "''/etc/pyiron.cfg''" None]
  by simp

subsection \<open>C4: the SQLite file derived from the first resource path\<close>



subsection \<open>C5: the viewer connection string\<close>

text \<open>
  C5 says that the viewer connection string is present whenever the viewer credentials
  were supplied, for Postgres and for MySQL. The file parser reads the viewer credentials
  for both, but only the Postgres branch of \<^verbatim>\<open>__init__\<close> builds the string: with a MySQL
  file that supplies all three viewer options, the viewer credentials are resolved, the
  primary string is the MySQL one, and the viewer connection string stays \<^verbatim>\<open>None\<close>.
\<close>

theorem C5_mysql_viewer_string_missing:
  "ebind (Settings_init (demo_env demo_mysql_options) None) (lookup ''sql_view_user'')
     = Inr (PStr ''v'')
   \<and> ebind (Settings_init (demo_env demo_mysql_options) None) (lookup ''sql_view_user_key'')
     = Inr (PStr ''vp'')
   \<and> ebind (Settings_init (demo_env demo_mysql_options) None) (lookup ''sql_view_table_name'')
     = Inr (PStr ''vt'')
   \<and> ebind (Settings_init (demo_env demo_mysql_options) None) (lookup ''sql_connection_string'')
     = Inr (PStr ''mysql+pymysql://alice:pw@h/d'')
   \<and> ebind (Settings_init (demo_env demo_mysql_options) None) (lookup ''sql_view_connection_string'')
     = Inr PNone"
  by (simp add: init_defs demo_mysql_options_def lookup_def)

subsection \<open>C6: top_path\<close>

text \<open>
  C6 says that \<^verbatim>\<open>top_path\<close> returns a root only when it is a prefix of the path, never on an
  interior match. The code tests \<^verbatim>\<open>path in full_path\<close>: with the single project root
  \<^verbatim>\<open>/b/\<close> (from \<^verbatim>\<open>PROJECT_PATHS = /b\<close>), \<^verbatim>\<open>top_path('/a/b/c')\<close> returns \<^verbatim>\<open>/b/\<close>, which is
  not a prefix of \<^verbatim>\<open>/a/b/c/\<close>.
\<close>

theorem C6_top_path_matches_interior_substring:
  "ebind (Settings_init (demo_env [''PROJECT_PATHS'' \<mapsto> ''/b'']) None) (lookup ''project_paths'')
     = Inr (PList [PStr ''/b/''])
   \<and> ebind (Settings_init (demo_env [''PROJECT_PATHS'' \<mapsto> ''/b'']) None) (top_path ''/a/b/c'')
     = Inr ''/b/''
   \<and> \<not> starts_with ''/a/b/c/'' ''/b/''"
  by (simp add: init_defs lookup_def top_path_def)

subsection \<open>C7: switch_to_user_mode\<close>

text \<open>
  C7 says that the handle opened by the switch to user mode is not in viewer mode. In the
  code, from a state whose handle is in viewer mode and with a viewer connection string,
  \<^verbatim>\<open>switch_to_user_mode\<close> closes that handle and opens one on the primary connection string
  and table, and then sets \<^verbatim>\<open>viewer_mode = True\<close> on the new handle.
\<close>

theorem C7_user_switch_leaves_viewer_flag_set:
  assumes "database s = Some h" and "viewer_mode h"
    and "configuration s ''sql_view_connection_string'' = Some v" and "v \<noteq> PNone"
    and "configuration s ''sql_connection_string'' = Some cs"
    and "configuration s ''sql_table_name'' = Some tn"
  shows "switch_to_user_mode s =
           Inr (s\<lparr>database := Some \<lparr>connection_string = cs, table_name = tn, viewer_mode = True\<rparr>,
                  closed := closed s @ [h]\<rparr>)"
  using assms
  by (simp add: switch_to_user_mode_def close_connection_def getitem_def ebind_def DatabaseAccess_def)

text \<open>
  C7, an instance: the Postgres settings after \<open>open_connection\<close> and
  \<open>switch_to_viewer_mode\<close>.
\<close>

theorem C7_user_switch_leaves_viewer_flag_set_witness:
  "ebind (open_connection demo_postgres_settings) switch_to_viewer_mode = Inr demo_reader_settings
   \<and> database demo_reader_settings = Some demo_viewer_handle \<and> viewer_mode demo_viewer_handle
   \<and> configuration demo_reader_settings ''sql_view_connection_string''
       = Some (PStr ''postgresql://v:vp@h/d'')
   \<and> switch_to_user_mode demo_reader_settings =
       Inr (demo_reader_settings
              \<lparr>database := Some \<lparr>connection_string = PStr ''postgresql://alice:pw@h/d'',
                                 table_name = PStr ''jobs_pyiron'', viewer_mode = True\<rparr>,
               closed := [demo_primary_handle, demo_viewer_handle]\<rparr>)"
  using C7_user_switch_leaves_viewer_flag_set
    [of demo_reader_settings demo_viewer_handle "PStr ''postgresql://v:vp@h/d''"
        "PStr ''postgresql://alice:pw@h/d''" "PStr ''jobs_pyiron''"]
    demo_reader_settings_reached
  by (simp add: demo_reader_settings_def demo_postgres_settings_def demo_viewer_handle_def
      default_configuration_lookup)

subsection \<open>C8: switch_to_viewer_mode\<close>

text \<open>
  C8 says that the switch to viewer mode works from every state, the one without a handle
  included, and never reads an absent handle. In the code, with a viewer connection string
  and no open handle, \<^verbatim>\<open>switch_to_viewer_mode\<close> reads \<^verbatim>\<open>self._database.viewer_mode\<close> on
  \<^verbatim>\<open>None\<close> and raises AttributeError.
\<close>

theorem C8_viewer_switch_without_handle_raises:
  assumes "database s = None"
    and "configuration s ''sql_view_connection_string'' = Some v" and "v \<noteq> PNone"
  shows "switch_to_viewer_mode s = Inl AttributeError"
  using assms by (simp add: switch_to_viewer_mode_def getitem_def ebind_def)

text \<open>C8, an instance: the Postgres settings as \<open>Settings_init\<close> returns them.\<close>

theorem C8_viewer_switch_without_handle_raises_witness:
  "Settings_init (demo_env demo_postgres_options) None = Inr demo_postgres_settings
   \<and> database demo_postgres_settings = None
   \<and> configuration demo_postgres_settings ''sql_view_connection_string''
       = Some (PStr ''postgresql://v:vp@h/d'')
   \<and> switch_to_viewer_mode demo_postgres_settings = Inl AttributeError"
  using C8_viewer_switch_without_handle_raises
    [of demo_postgres_settings "PStr ''postgresql://v:vp@h/d''"]
    demo_postgres_settings_resolved
  by (simp add: demo_postgres_settings_def)

subsection \<open>C9: open_connection\<close>

text \<open>
  C9 as stated, from every state including Local: \<^verbatim>\<open>open_connection\<close> leaves a handle on
  the primary connection string. It fails in the local state: after
  \<^verbatim>\<open>switch_to_local_database('a.db')\<close>, \<^verbatim>\<open>open_connection\<close> changes nothing, and the open
  handle is still the local one, on \<^verbatim>\<open>sqlite:////work/a.db\<close>, while the primary connection
  string is \<^verbatim>\<open>sqlite:////home/u/pyiron/resources/sqlite.db\<close>.
\<close>

theorem C9_open_from_local_counterexample:
  "switch_to_local_database (demo_env Map.empty) ''a.db'' None demo_settings = Inr demo_local_settings
   \<and> open_connection demo_local_settings = Inr demo_local_settings
   \<and> database demo_local_settings = Some demo_local_handle
   \<and> connection_string demo_local_handle = PStr ''sqlite:////work/a.db''
   \<and> lookup ''sql_connection_string'' demo_local_settings
       = Inr (PStr ''sqlite:////home/u/pyiron/resources/sqlite.db'')"
proof -
  have "open_connection demo_local_settings = Inr demo_local_settings"
    by (simp add: open_connection_def demo_local_settings_def)
  moreover have "lookup ''sql_connection_string'' demo_local_settings
                   = Inr (PStr ''sqlite:////home/u/pyiron/resources/sqlite.db'')"
    by (simp add: lookup_def getitem_def demo_local_settings_def demo_settings_def)
  ultimately show ?thesis
    using demo_local_settings_reached
    by (simp add: demo_local_settings_def demo_local_handle_def)
qed

text \<open>
  C9, amended: from a state without an open handle, \<^verbatim>\<open>open_connection\<close> opens a handle on
  the primary connection string and the primary table name, and changes nothing else; from
  a state with an open handle (local, central or viewer), it changes nothing.
\<close>

theorem C9_open_connection_amended:
  "(database s = None \<longrightarrow> configuration s ''sql_connection_string'' = Some cs \<longrightarrow>
      configuration s ''sql_table_name'' = Some tn \<longrightarrow>
      open_connection s = Inr (s\<lparr>database := Some (DatabaseAccess cs tn)\<rparr>))
   \<and> (database s \<noteq> None \<longrightarrow> open_connection s = Inr s)"
  by (simp add: open_connection_def getitem_def ebind_def)

text \<open>C9, instances: the settings as resolved, and the same in local mode.\<close>

theorem C9_open_connection_amended_witness:
  "database demo_settings = None
   \<and> open_connection demo_settings =
       Inr (demo_settings\<lparr>database := Some (DatabaseAccess
              (PStr ''sqlite:////home/u/pyiron/resources/sqlite.db'') (PStr ''jobs_pyiron''))\<rparr>)
   \<and> database demo_local_settings \<noteq> None
   \<and> open_connection demo_local_settings = Inr demo_local_settings"
  using C9_open_connection_amended
    [of demo_settings "PStr ''sqlite:////home/u/pyiron/resources/sqlite.db''" "PStr ''jobs_pyiron''"]
    C9_open_connection_amended [of demo_local_settings]
  by (simp add: demo_settings_def demo_local_settings_def default_configuration_lookup)

subsection \<open>C10: local, local again, central\<close>

text \<open>
  C10: in the state the object starts in (no handle, local flag clear, as \<^verbatim>\<open>__init__\<close>
  leaves them; lemma \<open>Settings_init_start\<close>), \<^verbatim>\<open>switch_to_local_database('a.db')\<close> opens a
  handle on the SQLite file \<^verbatim>\<open>a.db\<close> of the current directory and sets the local flag; the
  same call again only prints that the database is already in local mode, and returns
  without an error, leaving the handle, the flag and the closed handles as they are; then
  \<^verbatim>\<open>switch_to_central_database\<close> closes the local handle, opens one on the primary
  connection string and table, and clears the local flag.
\<close>

theorem C10_local_twice_then_central:
  assumes "database s = None" and "\<not> use_local_database s"
    and "configuration s ''sql_table_name'' = Some tn"
    and "configuration s ''sql_connection_string'' = Some cs"
  shows "let h = DatabaseAccess (PStr (''sqlite:///'' @ path_join (abs_curdir env) ''a.db'')) tn;
             s1 = s\<lparr>database := Some h, use_local_database := True\<rparr>;
             s2 = s1\<lparr>printed := printed s @ [''Database is already in local mode!'']\<rparr>;
             s3 = s2\<lparr>database := Some (DatabaseAccess cs tn), use_local_database := False,
                      closed := closed s @ [h]\<rparr>
         in switch_to_local_database env ''a.db'' None s = Inr s1
            \<and> switch_to_local_database env ''a.db'' None s1 = Inr s2
            \<and> switch_to_central_database s2 = Inr s3"
  using assms
  by (simp add: Let_def switch_to_local_database_def switch_to_central_database_def
      close_connection_def getitem_def ebind_def isabs_def)

text \<open>C10, an instance: the settings resolved from an empty file, in \<^verbatim>\<open>/work\<close>.\<close>

theorem C10_local_twice_then_central_witness:
  "Settings_init (demo_env Map.empty) None = Inr demo_settings
   \<and> database demo_settings = None \<and> \<not> use_local_database demo_settings
   \<and> switch_to_local_database (demo_env Map.empty) ''a.db'' None demo_settings
       = Inr demo_local_settings
   \<and> switch_to_local_database (demo_env Map.empty) ''a.db'' None demo_local_settings
       = Inr (demo_local_settings\<lparr>printed := [''Database is already in local mode!'']\<rparr>)
   \<and> switch_to_central_database
         (demo_local_settings\<lparr>printed := [''Database is already in local mode!'']\<rparr>)
       = Inr (demo_settings
                \<lparr>database := Some (DatabaseAccess
                    (PStr ''sqlite:////home/u/pyiron/resources/sqlite.db'') (PStr ''jobs_pyiron'')),
                 closed := [demo_local_handle],
                 printed := [''Database is already in local mode!'']\<rparr>)"
  using C10_local_twice_then_central
    [of demo_settings "PStr ''jobs_pyiron''"
        "PStr ''sqlite:////home/u/pyiron/resources/sqlite.db''" "demo_env Map.empty"]
    demo_settings_resolved
  by (simp add: Let_def demo_settings_def demo_local_settings_def demo_local_handle_def
      default_configuration_lookup DatabaseAccess_def path_join_def demo_env_def)

end
